theory Spec2Isabelle
  imports Complex_Main "HOL-Library.Signed_Division"
begin

section \<open>Constants of keymon\<close>

text \<open>
  The development follows \<^verbatim>\<open>src/keymon/keymon.c\<close> (the variant with volume persistence and
  the process monitor).  Where \<^verbatim>\<open>src/keymon.c\<close> (the single-file variant) differs, its
  definitions carry the suffix \<open>_simple\<close>.  C \<^verbatim>\<open>int\<close> values are modelled as \<open>int\<close>.  The
  quantities the daemon keeps stay far inside 32 bits (levels 0..7, steps -1..16, native
  volumes 0..31); the one value that comes from outside, the number parsed from the mixer's
  answer, is reduced to 32 bits by \<open>int32\<close>, and so is the arithmetic done on it.
  \<^verbatim>\<open>/\<close> on possibly negative operands is C's truncating division \<open>sdiv\<close>.
\<close>

definition int32 :: "int \<Rightarrow> int" where
  \<comment> \<open>the value of a 32-bit two's complement \<^verbatim>\<open>int\<close> that holds \<open>x\<close> modulo \<open>2 ^ 32\<close>\<close>
  "int32 x = (x + 2147483648) mod 4294967296 - 2147483648"

definition MAX_STEPS :: int where "MAX_STEPS = 16"
definition MAX_STEPS_simple :: int where "MAX_STEPS_simple = 10"
definition MAX_VOLUME :: int where "MAX_VOLUME = 31"
definition PROCESS_CHECK_INTERVAL :: int where "PROCESS_CHECK_INTERVAL = 2"
definition MAX_PROC_NAME :: nat where "MAX_PROC_NAME = 64"

definition KEY_VOLDOWN :: int where "KEY_VOLDOWN = 114"
definition EV_KEY :: int where "EV_KEY = 1"

definition MIN_BRIGHTNESS_INTERVAL_NS :: int where "MIN_BRIGHTNESS_INTERVAL_NS = 150000000"
definition MIN_MENU_DEBOUNCE_NS :: int where "MIN_MENU_DEBOUNCE_NS = 50000000"
definition MIN_VOLUME_CHANGE_INTERVAL_NS :: int where "MIN_VOLUME_CHANGE_INTERVAL_NS = 300000000"
definition IOCTL_RETRY_DELAY_US :: nat where "IOCTL_RETRY_DELAY_US = 10000"
definition MAX_IOCTL_RETRIES :: nat where "MAX_IOCTL_RETRIES = 3"

definition EPERM :: int where "EPERM = 1"
definition EAGAIN :: int where "EAGAIN = 11"
definition EBUSY :: int where "EBUSY = 16"

definition brightness_values :: "int list" where
  "brightness_values = [5, 10, 20, 50, 70, 140, 200, 255]"

definition ignored_processes :: "string list" where
  "ignored_processes =
     [''keymon'', ''init'', ''kthreadd'', ''ksoftirqd'',
      ''migration'', ''rcu_'', ''systemd'', ''dbus'', ''getty'', ''sshd'',
      ''kernel'', ''worker'', ''irq/'', ''mmcqd'', ''jbd2'', ''ext4-'',
      ''led_workqueue'', ''cfg80211'', ''wpa_supplicant'', ''dhcpcd'',
      ''NetworkManager'', ''chronyd'', ''rsyslog'', ''cron'', ''bash'', ''sh'']"

section \<open>Process state and observable effects\<close>

record timespec =
  tv_sec :: int
  tv_nsec :: int

definition timespec_diff_ns :: "timespec \<Rightarrow> timespec \<Rightarrow> int" where
  "timespec_diff_ns a b = (tv_sec a - tv_sec b) * 1000000000 + (tv_nsec a - tv_nsec b)"

text \<open>
  Every system call whose occurrence a property talks about is appended to a log, in program
  order.  Diagnostic \<^verbatim>\<open>printf\<close> output is not modelled.  The two state files are part of
  the state: their content, and whether \<^verbatim>\<open>fopen(..., "w")\<close> on them succeeds.  The
  last-process file is its text (\<open>None\<close> when it cannot be opened for reading); the volume
  file is the step written to it.
\<close>

datatype io_event =
    ClockGettime
  | TimeNull
  | OpenDisp bool
  | IoctlSetBrightness nat
  | IoctlGetBrightness nat
  | CloseDisp
  | Usleep nat
  | SystemTinymixSet int
  | SystemAmixerSet int
  | PopenTinymixGet
  | PopenAmixerGet
  | OpendirProc

record world =
  brightness_level :: int
  menu_long_pressed :: int
  brightness_get_supported :: int
  last_brightness_change :: timespec
  last_menu_event :: timespec
  last_volume_change :: timespec
  last_process_check :: int
  persistent_volume_step :: int
  skip_next_restore :: int
  lastproc_file :: "string option"
  lastproc_writable :: bool
  volume_file :: "int option"
  volume_writable :: bool
  io_log :: "io_event list"

definition emit :: "io_event \<Rightarrow> world \<Rightarrow> world" where
  "emit e w = w\<lparr>io_log := io_log w @ [e]\<rparr>"

text \<open>The statics' initialisers; the file system is whatever the daemon finds.\<close>

definition initial_world :: "string option \<Rightarrow> bool \<Rightarrow> int option \<Rightarrow> bool \<Rightarrow> world" where
  "initial_world lp lpw vf vfw =
     \<lparr>brightness_level = 3, menu_long_pressed = 0, brightness_get_supported = -1,
      last_brightness_change = \<lparr>tv_sec = 0, tv_nsec = 0\<rparr>,
      last_menu_event = \<lparr>tv_sec = 0, tv_nsec = 0\<rparr>,
      last_volume_change = \<lparr>tv_sec = 0, tv_nsec = 0\<rparr>,
      last_process_check = 0, persistent_volume_step = 3, skip_next_restore = 0,
      lastproc_file = lp, lastproc_writable = lpw, volume_file = vf, volume_writable = vfw,
      io_log = []\<rparr>"

section \<open>Volume conversion and the Volume Actuator\<close>

definition stepToVolume :: "int \<Rightarrow> int" where
  "stepToVolume step0 =
     (let step = (if step0 < 0 then 0 else step0);
          step = (if step > MAX_STEPS then MAX_STEPS else step)
      in (step * MAX_VOLUME) sdiv MAX_STEPS)"

definition stepToVolume_simple :: "int \<Rightarrow> int" where
  "stepToVolume_simple step0 =
     (let step = (if step0 < 0 then 0 else step0);
          step = (if step > MAX_STEPS_simple then MAX_STEPS_simple else step)
      in (step * MAX_VOLUME) sdiv MAX_STEPS_simple)"

text \<open>
  \<^verbatim>\<open>sscanf(buf, "%d", &value)\<close>: skip white space, read an optional sign and a non-empty run
  of decimal digits, and store the number in a 32-bit \<^verbatim>\<open>int\<close>.  \<open>None\<close> is a failed
  conversion, which leaves \<^verbatim>\<open>value\<close> at its initialiser.
\<close>

definition isspace :: "char \<Rightarrow> bool" where
  "isspace c = (c \<in> set [CHR '' '', CHR 0x09, CHR 0x0A, CHR 0x0B, CHR 0x0C, CHR 0x0D])"

definition isdigit :: "char \<Rightarrow> bool" where
  "isdigit c = (48 \<le> (of_char c :: nat) \<and> (of_char c :: nat) \<le> 57)"

fun digits_value :: "int \<Rightarrow> string \<Rightarrow> int" where
  "digits_value acc [] = acc"
| "digits_value acc (c # cs) =
     (if isdigit c then digits_value (acc * 10 + (of_char c - 48)) cs else acc)"

definition starts_with_digit :: "string \<Rightarrow> bool" where
  "starts_with_digit s = (case s of [] \<Rightarrow> False | c # _ \<Rightarrow> isdigit c)"

definition sscanf_d :: "string \<Rightarrow> int option" where
  "sscanf_d buf =
     (case dropWhile isspace buf of
        [] \<Rightarrow> None
      | c # cs \<Rightarrow>
          if c = CHR ''-''
          then (if starts_with_digit cs then Some (int32 (- digits_value 0 cs)) else None)
          else if c = CHR ''+''
          then (if starts_with_digit cs then Some (int32 (digits_value 0 cs)) else None)
          else if isdigit c then Some (int32 (digits_value 0 (c # cs)))
          else None)"

text \<open>
  What \<^verbatim>\<open>popen("tinymix get 2 2>/dev/null", "r")\<close> and the following \<^verbatim>\<open>fgets\<close> give:
  the pipe cannot be created, or it delivers the given text (possibly none).
\<close>

datatype pipe_reply = PopenFails | PipeText string

definition fgets :: "nat \<Rightarrow> string \<Rightarrow> string option" where
  \<comment> \<open>\<^verbatim>\<open>fgets(buf, n, f)\<close> on the remaining content: at most \<open>n - 1\<close> characters, up to
      and including the first newline; \<open>None\<close> at end of file.\<close>
  "fgets n content =
     (if content = [] then None
      else let chunk = take (n - 1) content;
               line = takeWhile (\<lambda>c. c \<noteq> CHR 0x0A) chunk
           in Some (if length line < length chunk then line @ [CHR 0x0A] else line))"

definition volumeStepOfValue :: "int \<Rightarrow> int" where
  \<comment> \<open>the arithmetic of \<^verbatim>\<open>getVolumeStep\<close> after the native value has been parsed\<close>
  "volumeStepOfValue v =
     (let step = int32 (int32 (v * MAX_STEPS) + MAX_VOLUME sdiv 2) sdiv MAX_VOLUME;
          step = (if step < 0 then 0 else step);
          step = (if step > MAX_STEPS then MAX_STEPS else step)
      in step)"

definition getVolumeStep :: "pipe_reply \<Rightarrow> world \<Rightarrow> int \<times> world" where
  "getVolumeStep reply w0 =
     (let w = emit PopenTinymixGet w0 in
      case reply of
        PopenFails \<Rightarrow> (-1, w)
      | PipeText txt \<Rightarrow>
          (case fgets 32 txt of
             None \<Rightarrow> (-1, w)
           | Some buf \<Rightarrow>
               (let v = (case sscanf_d buf of None \<Rightarrow> 0 | Some n \<Rightarrow> n)
                in (volumeStepOfValue v, w))))"

definition save_volume_to_file :: "int \<Rightarrow> world \<Rightarrow> world" where
  "save_volume_to_file step w =
     (if volume_writable w
      then w\<lparr>volume_file := Some step, persistent_volume_step := step\<rparr>
      else w)"

definition setVolumeStep :: "timespec \<Rightarrow> int \<Rightarrow> world \<Rightarrow> world" where
  "setVolumeStep now step0 w0 =
     (let w1 = emit ClockGettime w0 in
      if timespec_diff_ns now (last_volume_change w1) < MIN_VOLUME_CHANGE_INTERVAL_NS then w1
      else
        let step = (if step0 < 0 then 0 else step0);
            step = (if step > MAX_STEPS then MAX_STEPS else step);
            w2 = w1\<lparr>last_volume_change := now, skip_next_restore := 1\<rparr>;
            vol = stepToVolume step;
            w3 = emit (SystemTinymixSet vol) w2;
            w4 = save_volume_to_file step w3
        in emit (Usleep 100000) w4)"



definition setVolumeStep_simple :: "int \<Rightarrow> world \<Rightarrow> world" where
  "setVolumeStep_simple step0 w =
     (let step = (if step0 < 0 then 0 else step0);
          step = (if step > MAX_STEPS_simple then MAX_STEPS_simple else step);
          vol = stepToVolume_simple step
      in emit (SystemAmixerSet vol) w)"

section \<open>Brightness Actuator\<close>

text \<open>
  What the display device does on one attempt of the retry loop: \<^verbatim>\<open>open\<close> fails, the
  \<^verbatim>\<open>ioctl\<close> returns 0, or it fails and leaves the given \<^verbatim>\<open>errno\<close> (as read after
  \<^verbatim>\<open>close\<close>).  The device's behaviour is a parameter, indexed by the attempt.
\<close>

datatype disp_attempt = OpenFails | IoctlOk | IoctlFails int

function set_brightness_retry ::
  "(nat \<Rightarrow> disp_attempt) \<Rightarrow> nat \<Rightarrow> nat \<Rightarrow> world \<Rightarrow> int \<times> world" where
  "set_brightness_retry dev param1 retry w =
     (if retry < MAX_IOCTL_RETRIES then
        (case dev retry of
           OpenFails \<Rightarrow>
             (let w1 = emit (OpenDisp False) w in
              if retry < MAX_IOCTL_RETRIES - 1
              then set_brightness_retry dev param1 (retry + 1) (emit (Usleep IOCTL_RETRY_DELAY_US) w1)
              else (-1, w1))
         | IoctlOk \<Rightarrow>
             (0, emit CloseDisp (emit (IoctlSetBrightness param1) (emit (OpenDisp True) w)))
         | IoctlFails errno \<Rightarrow>
             (let w1 = emit CloseDisp (emit (IoctlSetBrightness param1) (emit (OpenDisp True) w)) in
              if errno = EPERM \<or> errno = EBUSY \<or> errno = EAGAIN then
                (if retry < MAX_IOCTL_RETRIES - 1
                 then set_brightness_retry dev param1 (retry + 1)
                        (emit (Usleep (IOCTL_RETRY_DELAY_US * (retry + 1))) w1)
                 else set_brightness_retry dev param1 (retry + 1) w1)
              else (-1, w1)))
      else (-1, w))"
  by pat_completeness auto
termination
  by (relation "measure (\<lambda>(dev, p, retry, w). MAX_IOCTL_RETRIES - retry)") auto

declare set_brightness_retry.simps [simp del]

definition set_brightness_ioctl ::
  "timespec \<Rightarrow> (nat \<Rightarrow> disp_attempt) \<Rightarrow> int \<Rightarrow> world \<Rightarrow> int \<times> world" where
  "set_brightness_ioctl now dev level0 w0 =
     (let level = (if level0 < 0 then 0 else level0);
          level = (if level > 7 then 7 else level);
          w1 = emit ClockGettime w0
      in if timespec_diff_ns now (last_brightness_change w1) < MIN_BRIGHTNESS_INTERVAL_NS
         then (0, w1)
         else
           let w2 = w1\<lparr>brightness_level := level, last_brightness_change := now\<rparr>;
               param1 = nat (brightness_values ! nat level)
           in set_brightness_retry dev param1 0 w2)"

section \<open>Brightness Reader\<close>

text \<open>
  What the display device does when probed: whether \<^verbatim>\<open>open\<close> succeeds, and for each of the
  two \<^verbatim>\<open>DISP_LCD_GET_BRIGHTNESS\<close> calls either failure (\<open>None\<close>) or the values it leaves in
  \<^verbatim>\<open>param[0]\<close> and \<^verbatim>\<open>param[1]\<close>.  \<^verbatim>\<open>unsigned long\<close> values are natural numbers; the
  only one cast to \<^verbatim>\<open>int\<close> is at most 255.
\<close>

record disp_probe =
  probe_open_ok :: bool
  probe_get0 :: "(nat \<times> nat) option"
  probe_get1 :: "(nat \<times> nat) option"

fun find_exact :: "int list \<Rightarrow> int \<Rightarrow> int \<Rightarrow> int option" where
  "find_exact [] v i = None"
| "find_exact (b # bs) v i = (if b = v then Some i else find_exact bs v (i + 1))"

definition closest_step :: "int \<Rightarrow> int \<times> int \<Rightarrow> int \<Rightarrow> int \<times> int" where
  \<comment> \<open>one iteration of the closest-match loop on \<open>(closest_i, closest_diff)\<close>\<close>
  "closest_step v acc i =
     (let diff = \<bar>brightness_values ! nat i - v\<bar>
      in if diff < snd acc then (i, diff) else acc)"

definition find_closest :: "int \<Rightarrow> int" where
  "find_closest v =
     fst (foldl (closest_step v) (0, \<bar>brightness_values ! 0 - v\<bar>) [1, 2, 3, 4, 5, 6, 7])"

definition brightness_found :: "nat \<Rightarrow> world \<Rightarrow> int option \<times> world" where
  \<comment> \<open>the code from the label \<^verbatim>\<open>brightness_found\<close> on, with \<^verbatim>\<open>param[1]\<close> given\<close>
  "brightness_found p1 w0 =
     (let w = (emit CloseDisp w0)\<lparr>brightness_get_supported := 1\<rparr>
      in case find_exact brightness_values (int p1) 0 of
           Some i \<Rightarrow> (Some i, w)
         | None \<Rightarrow> (Some (find_closest (int p1)), w))"

definition plausible :: "nat \<Rightarrow> bool" where
  "plausible p = (0 < p \<and> p \<le> 255)"

definition second_probe :: "disp_probe \<Rightarrow> world \<Rightarrow> int option \<times> world" where
  \<comment> \<open>the alternative format, \<^verbatim>\<open>param[0] = 1\<close>, and the failure exit\<close>
  "second_probe d w0 =
     (let w = emit (IoctlGetBrightness 1) w0 in
      case probe_get1 d of
        Some (p0, p1) \<Rightarrow>
          if plausible p1 then brightness_found p1 w
          else (None, emit CloseDisp (w\<lparr>brightness_get_supported := 0\<rparr>))
      | None \<Rightarrow> (None, emit CloseDisp (w\<lparr>brightness_get_supported := 0\<rparr>)))"

definition get_brightness_ioctl :: "disp_probe \<Rightarrow> world \<Rightarrow> int option \<times> world" where
  \<comment> \<open>\<open>Some i\<close>: returns 0 with \<^verbatim>\<open>*level = i\<close>; \<open>None\<close>: returns -1, \<^verbatim>\<open>*level\<close> untouched\<close>
  "get_brightness_ioctl d w =
     (if brightness_get_supported w = 0 then (None, w)
      else if \<not> probe_open_ok d
      then (None, (emit (OpenDisp False) w)\<lparr>brightness_get_supported := 0\<rparr>)
      else
        let w1 = emit (IoctlGetBrightness 0) (emit (OpenDisp True) w) in
        case probe_get0 d of
          Some (p0, p1) \<Rightarrow>
            if plausible p1 then brightness_found p1 w1
            else if plausible p0 then brightness_found p0 w1
            else second_probe d w1
        | None \<Rightarrow> second_probe d w1)"

definition sync_brightness_level :: "disp_probe \<Rightarrow> world \<Rightarrow> world" where
  "sync_brightness_level d w =
     (case get_brightness_ioctl d w of
        (Some detected_level, w') \<Rightarrow> w'\<lparr>brightness_level := detected_level\<rparr>
      | (None, w') \<Rightarrow> w')"

section \<open>Modifier Debouncer\<close>

definition handle_menu_event :: "timespec \<Rightarrow> int \<Rightarrow> world \<Rightarrow> int \<times> world" where
  "handle_menu_event now pressed w0 =
     (let w1 = emit ClockGettime w0 in
      if timespec_diff_ns now (last_menu_event w1) < MIN_MENU_DEBOUNCE_NS
      then (menu_long_pressed w1, w1)
      else
        let w2 = w1\<lparr>last_menu_event := now, menu_long_pressed := pressed\<rparr>
        in (menu_long_pressed w2, w2))"

section \<open>Process-Change Monitor\<close>

text \<open>
  Texts read from files hold no NUL character, so a C string is the list of its characters.
  \<open>strstr hay needle\<close> is \<^verbatim>\<open>strstr(hay, needle) != NULL\<close>.
\<close>

fun starts_with :: "string \<Rightarrow> string \<Rightarrow> bool" where
  "starts_with cs [] = True"
| "starts_with [] (n # ns) = False"
| "starts_with (c # cs) (n # ns) = (c = n \<and> starts_with cs ns)"

fun strstr :: "string \<Rightarrow> string \<Rightarrow> bool" where
  "strstr [] needle = (needle = [])"
| "strstr (c # cs) needle = (starts_with (c # cs) needle \<or> strstr cs needle)"

definition should_ignore_process :: "string \<Rightarrow> bool" where
  "should_ignore_process proc_name = list_ex (strstr proc_name) ignored_processes"

definition strip_newline :: "string \<Rightarrow> string" where
  \<comment> \<open>\<^verbatim>\<open>nl = strchr(s, '\n'); if (nl) *nl = '\0';\<close>\<close>
  "strip_newline s = takeWhile (\<lambda>c. c \<noteq> CHR 0x0A) s"

text \<open>
  One entry of \<^verbatim>\<open>/proc\<close> as \<^verbatim>\<open>readdir\<close> delivers it: its name, the content of its
  \<^verbatim>\<open>comm\<close> file (\<open>None\<close> when \<^verbatim>\<open>fopen\<close> fails) and the \<^verbatim>\<open>st_mtime\<close> of its
  \<^verbatim>\<open>stat\<close> file (\<open>None\<close> when \<^verbatim>\<open>stat\<close> fails).
\<close>

record proc_entry =
  d_name :: string
  comm_file :: "string option"
  stat_mtime :: "int option"

definition scan_entry :: "int \<times> string \<Rightarrow> proc_entry \<Rightarrow> int \<times> string" where
  \<comment> \<open>the body of the \<^verbatim>\<open>readdir\<close> loop on \<open>(newest_time, newest_name)\<close>\<close>
  "scan_entry acc e =
     (case d_name e of
        [] \<Rightarrow> acc
      | c # _ \<Rightarrow>
          if \<not> isdigit c then acc
          else
            (case comm_file e of
               None \<Rightarrow> acc
             | Some content \<Rightarrow>
                 (case fgets MAX_PROC_NAME content of
                    None \<Rightarrow> acc
                  | Some line \<Rightarrow>
                      (let comm_name = strip_newline line in
                       if should_ignore_process comm_name then acc
                       else
                         (case stat_mtime e of
                            None \<Rightarrow> acc
                          | Some mtime \<Rightarrow>
                              if mtime > fst acc
                              then (mtime, take (MAX_PROC_NAME - 1) comm_name)
                              else acc)))))"

definition get_newest_process :: "proc_entry list option \<Rightarrow> world \<Rightarrow> string option \<times> world" where
  \<comment> \<open>\<open>Some name\<close>: returns 1 with the name copied out; \<open>None\<close>: returns 0\<close>
  "get_newest_process table w0 =
     (let w = emit OpendirProc w0 in
      case table of
        None \<Rightarrow> (None, w)
      | Some entries \<Rightarrow>
          (let newest_name = snd (foldl scan_entry (0, []) entries)
           in if newest_name \<noteq> [] then (Some (take (MAX_PROC_NAME - 1) newest_name), w)
              else (None, w)))"

definition save_last_process :: "string \<Rightarrow> world \<Rightarrow> world" where
  "save_last_process proc_name w =
     (if lastproc_writable w then w\<lparr>lastproc_file := Some (proc_name @ [CHR 0x0A])\<rparr> else w)"

definition load_last_process :: "world \<Rightarrow> string option" where
  \<comment> \<open>\<open>Some name\<close>: returns 1 with the buffer filled; \<open>None\<close>: returns 0, buffer untouched\<close>
  "load_last_process w =
     (case lastproc_file w of
        None \<Rightarrow> None
      | Some content \<Rightarrow>
          (case fgets MAX_PROC_NAME content of
             None \<Rightarrow> None
           | Some line \<Rightarrow> Some (strip_newline line)))"

text \<open>What one tick of the monitor finds outside the process: the process table
  (\<open>None\<close> when \<^verbatim>\<open>opendir\<close> fails) and the mixer's answer.\<close>

record tick_env =
  proc_table :: "proc_entry list option"
  tinymix_reply :: pipe_reply

definition check_and_restore_on_new_process :: "int \<Rightarrow> tick_env \<Rightarrow> world \<Rightarrow> world" where
  "check_and_restore_on_new_process current_time env w0 =
     (let w1 = emit TimeNull w0 in
      if current_time - last_process_check w1 < PROCESS_CHECK_INTERVAL then w1
      else
        let w2 = w1\<lparr>last_process_check := current_time\<rparr> in
        if skip_next_restore w2 \<noteq> 0 then w2\<lparr>skip_next_restore := 0\<rparr>
        else
          (case get_newest_process (proc_table env) w2 of
             (None, w3) \<Rightarrow> w3
           | (Some current_proc, w3) \<Rightarrow>
               (let last_proc = (case load_last_process w3 of None \<Rightarrow> [] | Some s \<Rightarrow> s) in
                if current_proc \<noteq> last_proc then
                  (case getVolumeStep (tinymix_reply env) w3 of
                     (system_volume, w4) \<Rightarrow>
                       (let w5 =
                          (if system_volume \<ge> 0 then
                             (let diff = \<bar>system_volume - persistent_volume_step w4\<bar> in
                              if diff > 1
                              then emit (SystemTinymixSet (stepToVolume (persistent_volume_step w4))) w4
                              else w4)
                           else w4)
                        in save_last_process current_proc w5))
                else w3)))"

section \<open>Event dispatch\<close>

record input_event =
  ev_type :: int
  ev_code :: int
  ev_value :: int









section \<open>Vocabulary of the properties\<close>

text \<open>
  The definitions below are not code of the daemon: they name what the properties talk about.
\<close>

definition clamp_level :: "int \<Rightarrow> int" where
  "clamp_level l = (if l < 0 then 0 else if l > 7 then 7 else l)"

definition level_in_range :: "world \<Rightarrow> bool" where
  "level_in_range w = (0 \<le> brightness_level w \<and> brightness_level w \<le> 7)"

definition new_events :: "world \<Rightarrow> world \<Rightarrow> io_event list" where
  \<comment> \<open>what a run from \<open>w\<close> to \<open>w'\<close> appended to the log\<close>
  "new_events w w' = drop (length (io_log w)) (io_log w')"

definition usleeps :: "io_event list \<Rightarrow> nat list" where
  "usleeps l = concat (map (\<lambda>e. case e of Usleep d \<Rightarrow> [d] | _ \<Rightarrow> []) l)"

definition ioctl_sets :: "io_event list \<Rightarrow> nat list" where
  "ioctl_sets l = concat (map (\<lambda>e. case e of IoctlSetBrightness v \<Rightarrow> [v] | _ \<Rightarrow> []) l)"

definition open_attempts :: "io_event list \<Rightarrow> nat" where
  "open_attempts l = length (filter (\<lambda>e. case e of OpenDisp ok \<Rightarrow> True | _ \<Rightarrow> False) l)"

definition scan_events :: "io_event list \<Rightarrow> io_event list" where
  \<comment> \<open>the events with which the monitor enumerates processes or reads the live volume\<close>
  "scan_events l = filter (\<lambda>e. e = OpendirProc \<or> e = PopenTinymixGet) l"

text \<open>The retry policy as the code has it, in closed form over the device's three answers.\<close>

definition transient_errno :: "int \<Rightarrow> bool" where
  "transient_errno e = (e = EPERM \<or> e = EBUSY \<or> e = EAGAIN)"

definition retryable :: "disp_attempt \<Rightarrow> bool" where
  "retryable a =
     (case a of OpenFails \<Rightarrow> True | IoctlOk \<Rightarrow> False | IoctlFails e \<Rightarrow> transient_errno e)"

definition delay_after :: "nat \<Rightarrow> disp_attempt \<Rightarrow> nat" where
  \<comment> \<open>microseconds slept after the failed attempt with index \<open>i\<close>\<close>
  "delay_after i a = (case a of OpenFails \<Rightarrow> 10000 | _ \<Rightarrow> 10000 * (i + 1))"

definition attempts_made :: "(nat \<Rightarrow> disp_attempt) \<Rightarrow> nat" where
  "attempts_made dev =
     (if \<not> retryable (dev 0) then 1 else if \<not> retryable (dev 1) then 2 else 3)"

definition retry_outcome :: "(nat \<Rightarrow> disp_attempt) \<Rightarrow> int" where
  "retry_outcome dev = (if dev (attempts_made dev - 1) = IoctlOk then 0 else -1)"

definition attempt_log :: "nat \<Rightarrow> disp_attempt \<Rightarrow> io_event list" where
  "attempt_log p a =
     (case a of
        OpenFails \<Rightarrow> [OpenDisp False]
      | _ \<Rightarrow> [OpenDisp True, IoctlSetBrightness p, CloseDisp])"

definition expected_log :: "(nat \<Rightarrow> disp_attempt) \<Rightarrow> nat \<Rightarrow> io_event list" where
  "expected_log dev p =
     concat (map (\<lambda>i. attempt_log p (dev i) @
                       (if i + 1 < attempts_made dev then [Usleep (delay_after i (dev i))] else []))
                 [0..<attempts_made dev])"

text \<open>
  The conversion in the specification's words, \<open>round(step * MAX_NATIVE / MAX_STEP)\<close>, to be
  compared with \<^const>\<open>stepToVolume\<close>.
\<close>

definition spec_round_native :: "int \<Rightarrow> int" where
  "spec_round_native S = round (real_of_int (S * MAX_VOLUME) / real_of_int MAX_STEPS)"

text \<open>Any sequence of applies and startup probes, each with its own clock reading and device
  behaviour.\<close>

datatype brightness_op =
    ApplyLevel timespec "nat \<Rightarrow> disp_attempt" int
  | StartupProbe disp_probe

fun run_brightness_ops :: "brightness_op list \<Rightarrow> world \<Rightarrow> world" where
  "run_brightness_ops [] w = w"
| "run_brightness_ops (ApplyLevel now dev level # ops) w =
     run_brightness_ops ops (snd (set_brightness_ioctl now dev level w))"
| "run_brightness_ops (StartupProbe d # ops) w =
     run_brightness_ops ops (sync_brightness_level d w)"


text \<open>
  A concrete scenario: the last-process file holds \<open>shell\<close>, the persisted step is 8, the
  process table holds \<open>init\<close> (ignored) and \<open>game\<close>, and the mixer reports the native value 4
  (live step 2).  The parameter says whether the last-process file can be opened for writing.
\<close>

definition demo_world :: "bool \<Rightarrow> world" where
  "demo_world writable =
     (initial_world (Some (''shell'' @ [CHR 0x0A])) writable (Some 8) True)
       \<lparr>persistent_volume_step := 8\<rparr>"

definition demo_env :: tick_env where
  "demo_env =
     \<lparr>proc_table =
        Some [\<lparr>d_name = ''1'', comm_file = Some (''init'' @ [CHR 0x0A]), stat_mtime = Some 90\<rparr>,
              \<lparr>d_name = ''412'', comm_file = Some (''game'' @ [CHR 0x0A]), stat_mtime = Some 50\<rparr>],
      tinymix_reply = PipeText ''4''\<rparr>"

definition demo_probe :: disp_probe where
  "demo_probe = \<lparr>probe_open_ok = True, probe_get0 = Some (0, 130), probe_get1 = None\<rparr>"


definition voldown_press :: input_event where
  "voldown_press = \<lparr>ev_type = EV_KEY, ev_code = KEY_VOLDOWN, ev_value = 1\<rparr>"

definition always_ok :: "nat \<Rightarrow> disp_attempt" where
  "always_ok i = IoctlOk"



definition busy_twice :: "nat \<Rightarrow> disp_attempt" where
  \<comment> \<open>the control call fails with \<^verbatim>\<open>EBUSY\<close> twice, then succeeds\<close>
  "busy_twice i = (if i < 2 then IoctlFails EBUSY else IoctlOk)"

definition no_device_twice :: "nat \<Rightarrow> disp_attempt" where
  \<comment> \<open>\<^verbatim>\<open>open\<close> fails twice, then the control call succeeds\<close>
  "no_device_twice i = (if i < 2 then OpenFails else IoctlOk)"

section \<open>Auxiliary facts\<close>

subsection \<open>Volume conversion\<close>

lemma new_events_append [simp]: "io_log w' = io_log w @ l \<Longrightarrow> new_events w w' = l"
  by (simp add: new_events_def)

lemma stepToVolume_in_range:
  "0 \<le> S \<Longrightarrow> S \<le> MAX_STEPS \<Longrightarrow> stepToVolume S = (S * 31) div 16"
  by (simp add: stepToVolume_def MAX_VOLUME_def MAX_STEPS_def signed_divide_int_def sgn_if)

lemma stepToVolume_simple_in_range:
  "0 \<le> S \<Longrightarrow> S \<le> MAX_STEPS_simple \<Longrightarrow> stepToVolume_simple S = (S * 31) div 10"
  by (simp add: stepToVolume_simple_def MAX_VOLUME_def MAX_STEPS_simple_def
        signed_divide_int_def sgn_if)

lemma floor_quotient: "\<lfloor>real_of_int (a * 31) / real_of_int b\<rfloor> = (a * 31) div b"
  by (rule floor_divide_of_int_eq)

lemma setVolumeStep_open:
  "\<not> timespec_diff_ns now (last_volume_change w) < MIN_VOLUME_CHANGE_INTERVAL_NS \<Longrightarrow>
   0 \<le> S \<Longrightarrow> S \<le> MAX_STEPS \<Longrightarrow>
   io_log (setVolumeStep now S w) =
     io_log w @ [ClockGettime, SystemTinymixSet (stepToVolume S), Usleep 100000]"
  by (simp add: setVolumeStep_def Let_def emit_def save_volume_to_file_def)


lemma in_steps:
  "0 \<le> S \<Longrightarrow> S \<le> 16 \<Longrightarrow> S \<in> {0,1,2,3,4,5,6,7,8,9,10,11,12,13,14,15,16::int}"
  by simp presburger

lemma round_trip_arith:
  assumes "0 \<le> S" and "S \<le> MAX_STEPS"
  shows "volumeStepOfValue (stepToVolume S) = S"
proof -
  have "S \<in> {0,1,2,3,4,5,6,7,8,9,10,11,12,13,14,15,16::int}"
    using assms in_steps[of S] by (simp add: MAX_STEPS_def)
  then show ?thesis
    by (elim insertE emptyE;
        simp add: stepToVolume_def volumeStepOfValue_def MAX_VOLUME_def MAX_STEPS_def
          signed_divide_int_def int32_def)
qed

lemma stepToVolume_mono: "S \<le> T \<Longrightarrow> stepToVolume S \<le> stepToVolume T"
  by (auto simp add: stepToVolume_def MAX_VOLUME_def MAX_STEPS_def signed_divide_int_def sgn_if
        Let_def intro!: zdiv_mono1)

subsection \<open>The retry loop in closed form\<close>

lemma retry3: "set_brightness_retry dev p (Suc (Suc (Suc 0))) w = (-1, w)"
  by (subst set_brightness_retry.simps) (simp add: MAX_IOCTL_RETRIES_def)

lemma retry2:
  "set_brightness_retry dev p (Suc (Suc 0)) w =
     (if dev 2 = IoctlOk then 0 else -1, w\<lparr>io_log := io_log w @ attempt_log p (dev 2)\<rparr>)"
  by (subst set_brightness_retry.simps)
     (simp add: MAX_IOCTL_RETRIES_def retry3 emit_def attempt_log_def Let_def numeral_2_eq_2
        split: disp_attempt.splits)

lemma retry1:
  "set_brightness_retry dev p (Suc 0) w =
     (if retryable (dev 1)
      then set_brightness_retry dev p (Suc (Suc 0))
             (w\<lparr>io_log := io_log w @ attempt_log p (dev 1) @ [Usleep (delay_after 1 (dev 1))]\<rparr>)
      else (if dev 1 = IoctlOk then 0 else -1, w\<lparr>io_log := io_log w @ attempt_log p (dev 1)\<rparr>))"
  by (subst set_brightness_retry.simps)
     (simp add: MAX_IOCTL_RETRIES_def IOCTL_RETRY_DELAY_US_def emit_def attempt_log_def Let_def
        retryable_def transient_errno_def delay_after_def split: disp_attempt.splits)

lemma retry0:
  "set_brightness_retry dev p 0 w =
     (if retryable (dev 0)
      then set_brightness_retry dev p (Suc 0)
             (w\<lparr>io_log := io_log w @ attempt_log p (dev 0) @ [Usleep (delay_after 0 (dev 0))]\<rparr>)
      else (if dev 0 = IoctlOk then 0 else -1, w\<lparr>io_log := io_log w @ attempt_log p (dev 0)\<rparr>))"
  by (subst set_brightness_retry.simps)
     (simp add: MAX_IOCTL_RETRIES_def IOCTL_RETRY_DELAY_US_def emit_def attempt_log_def Let_def
        retryable_def transient_errno_def delay_after_def split: disp_attempt.splits)

lemma retry_all:
  "set_brightness_retry dev p 0 w =
     (retry_outcome dev, w\<lparr>io_log := io_log w @ expected_log dev p\<rparr>)"
  by (simp add: retry0 retry1 retry2 retry_outcome_def expected_log_def attempts_made_def
        numeral_2_eq_2 numeral_3_eq_3)

lemma sb_gate_closed:
  "timespec_diff_ns now (last_brightness_change w) < MIN_BRIGHTNESS_INTERVAL_NS \<Longrightarrow>
   set_brightness_ioctl now dev level w = (0, emit ClockGettime w)"
  by (simp add: set_brightness_ioctl_def Let_def emit_def)

lemma sb_gate_open:
  "\<not> timespec_diff_ns now (last_brightness_change w) < MIN_BRIGHTNESS_INTERVAL_NS \<Longrightarrow>
   set_brightness_ioctl now dev level w =
     (retry_outcome dev,
      w\<lparr>brightness_level := clamp_level level, last_brightness_change := now,
        io_log := io_log w @
          ClockGettime # expected_log dev (nat (brightness_values ! nat (clamp_level level)))\<rparr>)"
  by (simp add: set_brightness_ioctl_def Let_def emit_def clamp_level_def retry_all)

lemma attempts_cases: "attempts_made dev = 1 \<or> attempts_made dev = 2 \<or> attempts_made dev = 3"
  by (simp add: attempts_made_def)

lemma expected_log_1: "attempts_made dev = 1 \<Longrightarrow> expected_log dev p = attempt_log p (dev 0)"
  by (simp add: expected_log_def)

lemma expected_log_2:
  "attempts_made dev = 2 \<Longrightarrow>
   expected_log dev p =
     attempt_log p (dev 0) @ Usleep (delay_after 0 (dev 0)) # attempt_log p (dev 1)"
  by (simp add: expected_log_def numeral_2_eq_2)

lemma expected_log_3:
  "attempts_made dev = 3 \<Longrightarrow>
   expected_log dev p =
     attempt_log p (dev 0) @ Usleep (delay_after 0 (dev 0)) # attempt_log p (dev 1)
       @ Usleep (delay_after 1 (dev 1)) # attempt_log p (dev 2)"
  by (simp add: expected_log_def numeral_3_eq_3 numeral_2_eq_2)

lemma usleeps_attempt [simp]: "usleeps (attempt_log p a) = []"
  by (simp add: usleeps_def attempt_log_def split: disp_attempt.splits)

lemma usleeps_append [simp]: "usleeps (xs @ ys) = usleeps xs @ usleeps ys"
  by (simp add: usleeps_def)

lemma usleeps_cons [simp]: "usleeps (Usleep d # xs) = d # usleeps xs"
  by (simp add: usleeps_def)

lemma open_attempts_attempt [simp]: "open_attempts (attempt_log p a) = 1"
  by (simp add: open_attempts_def attempt_log_def split: disp_attempt.splits)

lemma open_attempts_append [simp]:
  "open_attempts (xs @ ys) = open_attempts xs + open_attempts ys"
  by (simp add: open_attempts_def)

lemma open_attempts_usleep [simp]: "open_attempts (Usleep d # xs) = open_attempts xs"
  by (simp add: open_attempts_def)

lemma usleeps_expected:
  "usleeps (expected_log dev p) = map (\<lambda>i. delay_after i (dev i)) [0..<attempts_made dev - 1]"
  using attempts_cases[of dev]
  by (auto simp add: expected_log_1 expected_log_2 expected_log_3 numeral_2_eq_2)

lemma open_attempts_expected: "open_attempts (expected_log dev p) = attempts_made dev"
  using attempts_cases[of dev]
  by (auto simp add: expected_log_1 expected_log_2 expected_log_3)

lemma scan_events_append [simp]: "scan_events (xs @ ys) = scan_events xs @ scan_events ys"
  by (simp add: scan_events_def)


subsection \<open>The brightness probe and the level's range\<close>

lemma find_exact_bounds:
  "find_exact bs v k = Some i \<Longrightarrow> k \<le> i \<and> i < k + int (length bs)"
proof (induction bs arbitrary: k)
  case Nil
  then show ?case by simp
next
  case (Cons b bs)
  show ?case
  proof (cases "b = v")
    case True
    then show ?thesis using Cons.prems by simp
  next
    case False
    then have "find_exact bs v (k + 1) = Some i" using Cons.prems by simp
    from Cons.IH[OF this] show ?thesis by simp
  qed
qed

lemma closest_step_range:
  "0 \<le> fst acc \<Longrightarrow> fst acc \<le> 7 \<Longrightarrow> 0 \<le> i \<Longrightarrow> i \<le> 7 \<Longrightarrow>
   0 \<le> fst (closest_step v acc i) \<and> fst (closest_step v acc i) \<le> 7"
  by (simp add: closest_step_def Let_def)

lemma foldl_closest_range:
  "0 \<le> fst acc \<Longrightarrow> fst acc \<le> 7 \<Longrightarrow> \<forall>i \<in> set is. 0 \<le> i \<and> i \<le> 7 \<Longrightarrow>
   0 \<le> fst (foldl (closest_step v) acc is) \<and> fst (foldl (closest_step v) acc is) \<le> 7"
proof (induction "is" arbitrary: acc)
  case Nil
  then show ?case by simp
next
  case (Cons i "is")
  have "0 \<le> fst (closest_step v acc i) \<and> fst (closest_step v acc i) \<le> 7"
    using Cons.prems by (intro closest_step_range) auto
  then show ?case using Cons.IH[of "closest_step v acc i"] Cons.prems by simp
qed

lemma find_closest_range: "0 \<le> find_closest v \<and> find_closest v \<le> 7"
  unfolding find_closest_def by (rule foldl_closest_range) auto

lemma brightness_found_range:
  "fst (brightness_found p w) = Some i \<Longrightarrow> 0 \<le> i \<and> i \<le> 7"
  using find_exact_bounds[of brightness_values "int p" 0] find_closest_range[of "int p"]
  by (auto simp add: brightness_found_def Let_def brightness_values_def split: option.splits)

lemma second_probe_range:
  "fst (second_probe d w) = Some i \<Longrightarrow> 0 \<le> i \<and> i \<le> 7"
  by (auto simp add: second_probe_def Let_def split: option.splits if_splits
        dest: brightness_found_range)

lemma get_brightness_range:
  "fst (get_brightness_ioctl d w) = Some i \<Longrightarrow> 0 \<le> i \<and> i \<le> 7"
  by (auto simp add: get_brightness_ioctl_def Let_def split: option.splits if_splits
        dest: brightness_found_range second_probe_range)

lemma brightness_found_level:
  "brightness_level (snd (brightness_found p w)) = brightness_level w"
  by (simp add: brightness_found_def Let_def emit_def split: option.splits)

lemma second_probe_level: "brightness_level (snd (second_probe d w)) = brightness_level w"
  by (simp add: second_probe_def Let_def emit_def brightness_found_level split: option.splits)

lemma get_brightness_level:
  "brightness_level (snd (get_brightness_ioctl d w)) = brightness_level w"
  by (simp add: get_brightness_ioctl_def Let_def emit_def brightness_found_level
        second_probe_level split: option.splits)

lemma sync_level_range:
  assumes "level_in_range w"
  shows "level_in_range (sync_brightness_level d w)"
proof -
  obtain r w' where g: "get_brightness_ioctl d w = (r, w')"
    by (cases "get_brightness_ioctl d w")
  show ?thesis
  proof (cases r)
    case None
    then show ?thesis using assms g get_brightness_level[of d w]
      by (simp add: sync_brightness_level_def level_in_range_def)
  next
    case (Some i)
    then show ?thesis using g get_brightness_range[of d w i]
      by (simp add: sync_brightness_level_def level_in_range_def)
  qed
qed

lemma clamp_level_range: "0 \<le> clamp_level l \<and> clamp_level l \<le> 7"
  by (simp add: clamp_level_def)

lemma apply_level_range:
  "level_in_range w \<Longrightarrow> level_in_range (snd (set_brightness_ioctl now dev level w))"
  using clamp_level_range[of level]
  by (cases "timespec_diff_ns now (last_brightness_change w) < MIN_BRIGHTNESS_INTERVAL_NS")
     (simp_all add: sb_gate_closed sb_gate_open level_in_range_def emit_def)

lemma run_ops_range: "level_in_range w \<Longrightarrow> level_in_range (run_brightness_ops ops w)"
proof (induction ops arbitrary: w)
  case Nil
  then show ?case by simp
next
  case (Cons op ops)
  then show ?case by (cases op) (simp_all add: apply_level_range sync_level_range)
qed

subsection \<open>The debouncer\<close>

lemma menu_ignored:
  "timespec_diff_ns now (last_menu_event w) < MIN_MENU_DEBOUNCE_NS \<Longrightarrow>
   handle_menu_event now pressed w = (menu_long_pressed w, emit ClockGettime w)"
  by (simp add: handle_menu_event_def Let_def emit_def)

lemma menu_accepted:
  "\<not> timespec_diff_ns now (last_menu_event w) < MIN_MENU_DEBOUNCE_NS \<Longrightarrow>
   handle_menu_event now pressed w =
     (pressed, (emit ClockGettime w)\<lparr>last_menu_event := now, menu_long_pressed := pressed\<rparr>)"
  by (simp add: handle_menu_event_def Let_def emit_def)

subsection \<open>The monitor's tick\<close>


lemma tick_skip:
  "\<not> now - last_process_check w < PROCESS_CHECK_INTERVAL \<Longrightarrow> skip_next_restore w \<noteq> 0 \<Longrightarrow>
   check_and_restore_on_new_process now env w =
     w\<lparr>last_process_check := now, skip_next_restore := 0, io_log := io_log w @ [TimeNull]\<rparr>"
  by (simp add: check_and_restore_on_new_process_def Let_def emit_def)








subsection \<open>Process names survive the state file\<close>







subsection \<open>What the event handlers leave alone\<close>








subsection \<open>The concrete scenario\<close>







subsection \<open>Thirty-two bit values\<close>


text \<open>Where the mixer's number does not fit, the model wraps as the code does.\<close>

lemma wrap_examples:
  "sscanf_d ''4294967300'' = Some 4" "volumeStepOfValue 134217728 = 0"
  by (simp_all add: sscanf_d_def isspace_def isdigit_def int32_def volumeStepOfValue_def
        MAX_STEPS_def MAX_VOLUME_def signed_divide_int_def)


subsection \<open>The step that \<^verbatim>\<open>main\<close> holds\<close>














subsection \<open>The iteration that changes the volume\<close>




section \<open>The claims\<close>




text \<open>
  C2.  A tick that passes the 2-second gate while the skip-restore flag is set clears the flag
  and returns: apart from the timestamp, the flag and the \<^verbatim>\<open>time\<close> call nothing changes and
  nothing is done, whatever the process table and the mixer hold.  No process enumeration, no
  volume read, no backend call; remembered name and persisted step are untouched.
\<close>

theorem skip_flag_consumes_tick:
  assumes "\<not> now - last_process_check w < PROCESS_CHECK_INTERVAL" and "skip_next_restore w \<noteq> 0"
  shows "(let w' = check_and_restore_on_new_process now env w
          in w' = w\<lparr>last_process_check := now, skip_next_restore := 0,
                    io_log := io_log w @ [TimeNull]\<rparr>
           \<and> skip_next_restore w' = 0
           \<and> new_events w w' = [TimeNull]
           \<and> lastproc_file w' = lastproc_file w
           \<and> load_last_process w' = load_last_process w
           \<and> persistent_volume_step w' = persistent_volume_step w
           \<and> volume_file w' = volume_file w)"
  using assms by (simp add: tick_skip Let_def load_last_process_def)

theorem skip_flag_consumes_tick_witness:
  "\<not> 100 - last_process_check ((demo_world True)\<lparr>skip_next_restore := 1\<rparr>) < PROCESS_CHECK_INTERVAL
   \<and> skip_next_restore ((demo_world True)\<lparr>skip_next_restore := 1\<rparr>) \<noteq> 0
   \<and> check_and_restore_on_new_process 100 demo_env ((demo_world True)\<lparr>skip_next_restore := 1\<rparr>) =
       (demo_world True)\<lparr>last_process_check := 100, io_log := [TimeNull]\<rparr>
   \<and> load_last_process
        (check_and_restore_on_new_process 100 demo_env ((demo_world True)\<lparr>skip_next_restore := 1\<rparr>)) =
       Some ''shell''"
  using skip_flag_consumes_tick[of 100 "(demo_world True)\<lparr>skip_next_restore := 1\<rparr>" demo_env]
  by (simp add: demo_world_def initial_world_def PROCESS_CHECK_INTERVAL_def Let_def
        load_last_process_def fgets_def MAX_PROC_NAME_def strip_newline_def)


text \<open>
  C3 (amended).  A brightness apply that passes the rate gate makes at most 3 attempts.  A failed
  \<^verbatim>\<open>open\<close> is retried after a fixed delay of 10 ms; a control call that fails with a
  transient error (\<^verbatim>\<open>EPERM\<close>, \<^verbatim>\<open>EBUSY\<close>, \<^verbatim>\<open>EAGAIN\<close>) is retried after 10 ms times the
  number of the attempt (10 ms, then 20 ms); any other error ends the loop at once; the result
  is 0 exactly when the last attempt made succeeds and -1 otherwise (in particular when the
  attempts are exhausted); and in every outcome the stored level is the clamped requested level.
  If the control call fails transiently twice and then succeeds, the result is 0, the control
  call was issued exactly three times, and the two delays are 10 ms and 20 ms.
\<close>

theorem brightness_retry_policy:
  assumes gate: "\<not> timespec_diff_ns now (last_brightness_change w) < MIN_BRIGHTNESS_INTERVAL_NS"
  shows "(let r = set_brightness_ioctl now dev level w;
              p = nat (brightness_values ! nat (clamp_level level));
              new = new_events w (snd r)
          in fst r = retry_outcome dev
           \<and> brightness_level (snd r) = clamp_level level
           \<and> new = ClockGettime # expected_log dev p
           \<and> open_attempts new = attempts_made dev \<and> attempts_made dev \<le> 3
           \<and> usleeps new = map (\<lambda>i. delay_after i (dev i)) [0..<attempts_made dev - 1]
           \<and> ((\<exists>e0 e1. dev 0 = IoctlFails e0 \<and> transient_errno e0 \<and>
                        dev 1 = IoctlFails e1 \<and> transient_errno e1 \<and> dev 2 = IoctlOk) \<longrightarrow>
                fst r = 0 \<and> ioctl_sets new = [p, p, p] \<and> usleeps new = [10000, 20000]))"
proof -
  let ?p = "nat (brightness_values ! nat (clamp_level level))"
  let ?r = "set_brightness_ioctl now dev level w"
  have r: "?r = (retry_outcome dev,
      w\<lparr>brightness_level := clamp_level level, last_brightness_change := now,
        io_log := io_log w @ ClockGettime # expected_log dev ?p\<rparr>)"
    using gate by (rule sb_gate_open)
  have new: "new_events w (snd ?r) = ClockGettime # expected_log dev ?p"
    by (simp add: r)
  have oa: "open_attempts (ClockGettime # expected_log dev ?p) = attempts_made dev"
    using open_attempts_expected[of dev ?p] by (simp add: open_attempts_def)
  have us: "usleeps (ClockGettime # expected_log dev ?p) =
              map (\<lambda>i. delay_after i (dev i)) [0..<attempts_made dev - 1]"
    using usleeps_expected[of dev ?p] by (simp add: usleeps_def)
  have le: "attempts_made dev \<le> 3" using attempts_cases[of dev] by auto
  have scen: "retry_outcome dev = 0
       \<and> ioctl_sets (ClockGettime # expected_log dev ?p) = [?p, ?p, ?p]
       \<and> usleeps (ClockGettime # expected_log dev ?p) = [10000, 20000]"
    if "\<exists>e0 e1. dev 0 = IoctlFails e0 \<and> transient_errno e0 \<and>
                 dev 1 = IoctlFails e1 \<and> transient_errno e1 \<and> dev 2 = IoctlOk"
  proof -
    from that obtain e0 e1 where d: "dev 0 = IoctlFails e0" "transient_errno e0"
        "dev 1 = IoctlFails e1" "transient_errno e1" "dev 2 = IoctlOk" by blast
    have am: "attempts_made dev = 3" using d by (simp add: attempts_made_def retryable_def)
    show ?thesis using d
      by (simp add: retry_outcome_def am expected_log_3 attempt_log_def ioctl_sets_def
            usleeps_def delay_after_def)
  qed
  show ?thesis
    unfolding Let_def new using r oa us le scen by simp
qed

theorem brightness_retry_policy_witness:
  "\<not> timespec_diff_ns \<lparr>tv_sec = 1, tv_nsec = 0\<rparr>
        (last_brightness_change (initial_world None True None True)) < MIN_BRIGHTNESS_INTERVAL_NS
   \<and> busy_twice 0 = IoctlFails EBUSY \<and> busy_twice 1 = IoctlFails EBUSY \<and> busy_twice 2 = IoctlOk
   \<and> transient_errno EBUSY
   \<and> fst (set_brightness_ioctl \<lparr>tv_sec = 1, tv_nsec = 0\<rparr> busy_twice 9
             (initial_world None True None True)) = 0
   \<and> brightness_level (snd (set_brightness_ioctl \<lparr>tv_sec = 1, tv_nsec = 0\<rparr> busy_twice 9
             (initial_world None True None True))) = 7
   \<and> ioctl_sets (new_events (initial_world None True None True)
        (snd (set_brightness_ioctl \<lparr>tv_sec = 1, tv_nsec = 0\<rparr> busy_twice 9
               (initial_world None True None True)))) = [255, 255, 255]
   \<and> usleeps (new_events (initial_world None True None True)
        (snd (set_brightness_ioctl \<lparr>tv_sec = 1, tv_nsec = 0\<rparr> busy_twice 9
               (initial_world None True None True)))) = [10000, 20000]"
proof -
  have g: "\<not> timespec_diff_ns \<lparr>tv_sec = 1, tv_nsec = 0\<rparr>
        (last_brightness_change (initial_world None True None True)) < MIN_BRIGHTNESS_INTERVAL_NS"
    by (simp add: initial_world_def timespec_diff_ns_def MIN_BRIGHTNESS_INTERVAL_NS_def)
  have b: "busy_twice 0 = IoctlFails EBUSY" "busy_twice 1 = IoctlFails EBUSY"
      "busy_twice 2 = IoctlOk" "transient_errno EBUSY"
    by (simp_all add: busy_twice_def transient_errno_def)
  have p: "nat (brightness_values ! 7) = 255" "clamp_level 9 = 7"
    by (simp_all add: clamp_level_def brightness_values_def)
  let ?r = "set_brightness_ioctl \<lparr>tv_sec = 1, tv_nsec = 0\<rparr> busy_twice 9
              (initial_world None True None True)"
  let ?new = "new_events (initial_world None True None True) (snd ?r)"
  let ?p = "nat (brightness_values ! nat (clamp_level 9))"
  from brightness_retry_policy[OF g, of busy_twice 9] b
  have "fst ?r = 0 \<and> brightness_level (snd ?r) = clamp_level 9
      \<and> ioctl_sets ?new = [?p, ?p, ?p] \<and> usleeps ?new = [10000, 20000]"
    unfolding Let_def by blast
  then show ?thesis using g b by (simp add: p)
qed

text \<open>
  The claim as stated fails for a device that cannot be opened: the two delays are 10 ms and
  10 ms, not increasing and not 10 ms times the retry count.
\<close>

theorem brightness_open_retry_fixed_delay_counterexample:
  "\<not> timespec_diff_ns \<lparr>tv_sec = 1, tv_nsec = 0\<rparr>
        (last_brightness_change (initial_world None True None True)) < MIN_BRIGHTNESS_INTERVAL_NS
   \<and> no_device_twice 0 = OpenFails \<and> no_device_twice 1 = OpenFails
   \<and> fst (set_brightness_ioctl \<lparr>tv_sec = 1, tv_nsec = 0\<rparr> no_device_twice 5
             (initial_world None True None True)) = 0
   \<and> new_events (initial_world None True None True)
        (snd (set_brightness_ioctl \<lparr>tv_sec = 1, tv_nsec = 0\<rparr> no_device_twice 5
               (initial_world None True None True))) =
       [ClockGettime, OpenDisp False, Usleep 10000, OpenDisp False, Usleep 10000,
        OpenDisp True, IoctlSetBrightness 140, CloseDisp]"
proof -
  have g: "\<not> timespec_diff_ns \<lparr>tv_sec = 1, tv_nsec = 0\<rparr>
        (last_brightness_change (initial_world None True None True)) < MIN_BRIGHTNESS_INTERVAL_NS"
    by (simp add: initial_world_def timespec_diff_ns_def MIN_BRIGHTNESS_INTERVAL_NS_def)
  have am: "attempts_made no_device_twice = 3"
    by (simp add: attempts_made_def no_device_twice_def retryable_def)
  have p: "nat (brightness_values ! nat (clamp_level 5)) = 140"
    by (simp add: clamp_level_def brightness_values_def)
  show ?thesis
    using g
    by (simp add: sb_gate_open[OF g] p retry_outcome_def am expected_log_3 attempt_log_def
          delay_after_def no_device_twice_def)
qed

text \<open>
  C4 (amended).  For every volume step \<open>S\<close> in \<open>[0, MAX_STEPS]\<close> the native value computed by
  \<^const>\<open>stepToVolume\<close>, and handed to the mixer by the Volume Actuator when its rate gate is
  open, is \<open>S * 31 / MAX_STEPS\<close> rounded down (C integer division), not rounded to the nearest
  integer.  The same holds in the single-file variant with its \<open>MAX_STEPS\<close> of 10.
\<close>

theorem native_value_is_floor:
  assumes "0 \<le> S" and "S \<le> MAX_STEPS"
  shows "stepToVolume S = \<lfloor>real_of_int (S * MAX_VOLUME) / real_of_int MAX_STEPS\<rfloor>
       \<and> (\<not> timespec_diff_ns now (last_volume_change w) < MIN_VOLUME_CHANGE_INTERVAL_NS \<longrightarrow>
            new_events w (setVolumeStep now S w) =
              [ClockGettime,
               SystemTinymixSet \<lfloor>real_of_int (S * MAX_VOLUME) / real_of_int MAX_STEPS\<rfloor>,
               Usleep 100000])
       \<and> (S \<le> MAX_STEPS_simple \<longrightarrow>
            stepToVolume_simple S =
              \<lfloor>real_of_int (S * MAX_VOLUME) / real_of_int MAX_STEPS_simple\<rfloor>
          \<and> new_events w (setVolumeStep_simple S w) =
              [SystemAmixerSet \<lfloor>real_of_int (S * MAX_VOLUME) / real_of_int MAX_STEPS_simple\<rfloor>])"
proof -
  have f: "stepToVolume S = \<lfloor>real_of_int (S * MAX_VOLUME) / real_of_int MAX_STEPS\<rfloor>"
    using assms stepToVolume_in_range[of S] floor_quotient[of S 16]
    by (simp add: MAX_VOLUME_def MAX_STEPS_def)
  have g: "stepToVolume_simple S =
             \<lfloor>real_of_int (S * MAX_VOLUME) / real_of_int MAX_STEPS_simple\<rfloor>"
    if "S \<le> MAX_STEPS_simple"
    using assms that stepToVolume_simple_in_range[of S] floor_quotient[of S 10]
    by (simp add: MAX_VOLUME_def MAX_STEPS_simple_def)
  have h: "new_events w (setVolumeStep now S w) =
             [ClockGettime, SystemTinymixSet (stepToVolume S), Usleep 100000]"
    if "\<not> timespec_diff_ns now (last_volume_change w) < MIN_VOLUME_CHANGE_INTERVAL_NS"
    using that assms by (simp add: setVolumeStep_open)
  have k: "new_events w (setVolumeStep_simple S w) = [SystemAmixerSet (stepToVolume_simple S)]"
    if "S \<le> MAX_STEPS_simple"
    using that assms by (simp add: setVolumeStep_simple_def emit_def Let_def)
  show ?thesis using f g h k by simp
qed

theorem native_value_is_floor_witness:
  "(0::int) \<le> 1 \<and> 1 \<le> MAX_STEPS \<and> 1 \<le> MAX_STEPS_simple
   \<and> \<not> timespec_diff_ns \<lparr>tv_sec = 1, tv_nsec = 0\<rparr>
          (last_volume_change (initial_world None True None True)) < MIN_VOLUME_CHANGE_INTERVAL_NS
   \<and> stepToVolume 1 = 1 \<and> stepToVolume_simple 1 = 3
   \<and> new_events (initial_world None True None True)
        (setVolumeStep \<lparr>tv_sec = 1, tv_nsec = 0\<rparr> 1 (initial_world None True None True)) =
       [ClockGettime, SystemTinymixSet 1, Usleep 100000]
   \<and> new_events (initial_world None True None True)
        (setVolumeStep_simple 1 (initial_world None True None True)) = [SystemAmixerSet 3]"
  using native_value_is_floor[of 1 "\<lparr>tv_sec = 1, tv_nsec = 0\<rparr>" "initial_world None True None True"]
  by (simp add: MAX_STEPS_def MAX_STEPS_simple_def MAX_VOLUME_def initial_world_def
        timespec_diff_ns_def MIN_VOLUME_CHANGE_INTERVAL_NS_def)

text \<open>
  The claim as stated fails at step 1: \<open>1 * 31 / 16 = 1.9375\<close> rounds to 2, and the code
  computes and applies 1.
\<close>

theorem native_value_not_rounded_counterexample:
  "0 \<le> (1::int) \<and> 1 \<le> MAX_STEPS \<and> stepToVolume 1 = 1 \<and> spec_round_native 1 = 2
   \<and> new_events (initial_world None True None True)
        (setVolumeStep \<lparr>tv_sec = 1, tv_nsec = 0\<rparr> 1 (initial_world None True None True)) =
       [ClockGettime, SystemTinymixSet 1, Usleep 100000]"
  by (simp add: stepToVolume_def spec_round_native_def MAX_STEPS_def MAX_VOLUME_def round_def
        signed_divide_int_def new_events_def setVolumeStep_def Let_def emit_def initial_world_def
        timespec_diff_ns_def MIN_VOLUME_CHANGE_INTERVAL_NS_def save_volume_to_file_def)

text \<open>
  C5.  The step-to-native conversion is monotonically non-decreasing, and for every step \<open>S\<close>
  in \<open>[0, MAX_STEPS]\<close> the round trip through the nearest-step inverse
  \<open>(native * MAX_STEPS + MAX_VOLUME / 2) / MAX_VOLUME\<close> returns \<open>S\<close>; so
  \<^const>\<open>getVolumeStep\<close> reads back \<open>S\<close> whenever the mixer reports the native value of \<open>S\<close>.
\<close>

theorem step_native_round_trip:
  "(S \<le> T \<longrightarrow> stepToVolume S \<le> stepToVolume T)
   \<and> (0 \<le> S \<and> S \<le> MAX_STEPS \<longrightarrow>
        (stepToVolume S * MAX_STEPS + MAX_VOLUME sdiv 2) sdiv MAX_VOLUME = S
      \<and> volumeStepOfValue (stepToVolume S) = S
      \<and> (fgets 32 txt = Some buf \<and> sscanf_d buf = Some (stepToVolume S) \<longrightarrow>
           fst (getVolumeStep (PipeText txt) w) = S))"
proof -
  have rt: "volumeStepOfValue (stepToVolume S) = S" if "0 \<le> S" "S \<le> MAX_STEPS"
    using that by (rule round_trip_arith)
  have raw: "(stepToVolume S * MAX_STEPS + MAX_VOLUME sdiv 2) sdiv MAX_VOLUME = S"
    if "0 \<le> S" "S \<le> MAX_STEPS"
  proof -
    have "S \<in> {0,1,2,3,4,5,6,7,8,9,10,11,12,13,14,15,16::int}"
      using that in_steps[of S] by (simp add: MAX_STEPS_def)
    then show ?thesis
      by (elim insertE emptyE;
          simp add: stepToVolume_def MAX_VOLUME_def MAX_STEPS_def signed_divide_int_def)
  qed
  have rd: "fst (getVolumeStep (PipeText txt) w) = S"
    if "0 \<le> S" "S \<le> MAX_STEPS" "fgets 32 txt = Some buf" "sscanf_d buf = Some (stepToVolume S)"
    using rt[OF that(1,2)] that(3,4) by (simp add: getVolumeStep_def Let_def)
  show ?thesis using stepToVolume_mono[of S T] rt raw rd by blast
qed

theorem step_native_round_trip_witness:
  "(5::int) \<le> 6 \<and> stepToVolume 5 \<le> stepToVolume 6
   \<and> (0::int) \<le> 5 \<and> 5 \<le> MAX_STEPS \<and> stepToVolume 5 = 9
   \<and> fgets 32 ''9'' = Some ''9'' \<and> sscanf_d ''9'' = Some 9
   \<and> volumeStepOfValue 9 = 5
   \<and> fst (getVolumeStep (PipeText ''9'') (initial_world None True None True)) = 5"
proof -
  have a: "stepToVolume 5 = 9"
    by (simp add: stepToVolume_def MAX_STEPS_def MAX_VOLUME_def signed_divide_int_def)
  have b: "fgets 32 ''9'' = Some ''9''" "sscanf_d ''9'' = Some 9"
    by (simp_all add: fgets_def sscanf_d_def isspace_def isdigit_def Let_def int32_def)
  show ?thesis
    using step_native_round_trip[of 5 6 "''9''" "''9''" "initial_world None True None True"] a b
    by (simp add: MAX_STEPS_def)
qed


text \<open>
  C6.  A brightness apply whose clock reading is less than 150 ms after the stored last-change
  timestamp is a silent no-op returning 0: level and timestamp are unchanged, and nothing but
  the clock is touched (the device is neither opened nor invoked).  The timestamp is stored
  by every apply that passes the gate, before the device is touched, so this holds after a
  previous apply whether its write succeeded or was merely attempted: whatever the device did
  on the first apply, any apply less than 150 ms later is such a no-op.  (An apply that was
  itself refused by the gate stores no timestamp.)
\<close>

theorem brightness_rate_gate:
  "(timespec_diff_ns now (last_brightness_change w) < MIN_BRIGHTNESS_INTERVAL_NS \<longrightarrow>
      set_brightness_ioctl now dev level w = (0, emit ClockGettime w)
    \<and> brightness_level (snd (set_brightness_ioctl now dev level w)) = brightness_level w
    \<and> last_brightness_change (snd (set_brightness_ioctl now dev level w)) =
        last_brightness_change w
    \<and> new_events w (snd (set_brightness_ioctl now dev level w)) = [ClockGettime])
   \<and> (\<not> timespec_diff_ns t1 (last_brightness_change w) < MIN_BRIGHTNESS_INTERVAL_NS
        \<and> timespec_diff_ns t2 t1 < MIN_BRIGHTNESS_INTERVAL_NS \<longrightarrow>
       (let w1 = snd (set_brightness_ioctl t1 dev1 l1 w)
        in set_brightness_ioctl t2 dev2 l2 w1 = (0, emit ClockGettime w1)
         \<and> brightness_level (snd (set_brightness_ioctl t2 dev2 l2 w1)) = clamp_level l1
         \<and> last_brightness_change (snd (set_brightness_ioctl t2 dev2 l2 w1)) = t1))"
  by (simp add: sb_gate_closed sb_gate_open emit_def)

theorem brightness_rate_gate_witness:
  "timespec_diff_ns \<lparr>tv_sec = 0, tv_nsec = 100000000\<rparr>
       (last_brightness_change (initial_world None True None True)) < MIN_BRIGHTNESS_INTERVAL_NS
   \<and> set_brightness_ioctl \<lparr>tv_sec = 0, tv_nsec = 100000000\<rparr> always_ok 5
        (initial_world None True None True) =
       (0, emit ClockGettime (initial_world None True None True))
   \<and> \<not> timespec_diff_ns \<lparr>tv_sec = 1, tv_nsec = 0\<rparr>
       (last_brightness_change (initial_world None True None True)) < MIN_BRIGHTNESS_INTERVAL_NS
   \<and> timespec_diff_ns \<lparr>tv_sec = 1, tv_nsec = 149999999\<rparr> \<lparr>tv_sec = 1, tv_nsec = 0\<rparr>
       < MIN_BRIGHTNESS_INTERVAL_NS
   \<and> set_brightness_ioctl \<lparr>tv_sec = 1, tv_nsec = 149999999\<rparr> always_ok 6
        (snd (set_brightness_ioctl \<lparr>tv_sec = 1, tv_nsec = 0\<rparr> no_device_twice 4
               (initial_world None True None True))) =
       (0, emit ClockGettime
            (snd (set_brightness_ioctl \<lparr>tv_sec = 1, tv_nsec = 0\<rparr> no_device_twice 4
                   (initial_world None True None True))))
   \<and> brightness_level
       (snd (set_brightness_ioctl \<lparr>tv_sec = 1, tv_nsec = 149999999\<rparr> always_ok 6
         (snd (set_brightness_ioctl \<lparr>tv_sec = 1, tv_nsec = 0\<rparr> no_device_twice 4
               (initial_world None True None True))))) = 4"
proof -
  have a: "timespec_diff_ns \<lparr>tv_sec = 0, tv_nsec = 100000000\<rparr>
       (last_brightness_change (initial_world None True None True)) < MIN_BRIGHTNESS_INTERVAL_NS"
    by (simp add: initial_world_def timespec_diff_ns_def MIN_BRIGHTNESS_INTERVAL_NS_def)
  have b: "\<not> timespec_diff_ns \<lparr>tv_sec = 1, tv_nsec = 0\<rparr>
       (last_brightness_change (initial_world None True None True)) < MIN_BRIGHTNESS_INTERVAL_NS"
    by (simp add: initial_world_def timespec_diff_ns_def MIN_BRIGHTNESS_INTERVAL_NS_def)
  have c: "timespec_diff_ns \<lparr>tv_sec = 1, tv_nsec = 149999999\<rparr> \<lparr>tv_sec = 1, tv_nsec = 0\<rparr>
       < MIN_BRIGHTNESS_INTERVAL_NS"
    by (simp add: timespec_diff_ns_def MIN_BRIGHTNESS_INTERVAL_NS_def)
  have l: "clamp_level 4 = 4" by (simp add: clamp_level_def)
  let ?w = "initial_world None True None True"
  let ?w1 = "snd (set_brightness_ioctl \<lparr>tv_sec = 1, tv_nsec = 0\<rparr> no_device_twice 4 ?w)"
  let ?r2 = "set_brightness_ioctl \<lparr>tv_sec = 1, tv_nsec = 149999999\<rparr> always_ok 6 ?w1"
  from brightness_rate_gate[of "\<lparr>tv_sec = 0, tv_nsec = 100000000\<rparr>" ?w always_ok 5
        "\<lparr>tv_sec = 1, tv_nsec = 0\<rparr>" "\<lparr>tv_sec = 1, tv_nsec = 149999999\<rparr>"
        no_device_twice 4 always_ok 6] a b c
  have x1: "set_brightness_ioctl \<lparr>tv_sec = 0, tv_nsec = 100000000\<rparr> always_ok 5 ?w =
          (0, emit ClockGettime ?w)"
    and x2: "?r2 = (0, emit ClockGettime ?w1)"
    and x3: "brightness_level (snd ?r2) = clamp_level 4"
    unfolding Let_def by blast+
  have x4: "brightness_level (snd ?r2) = 4" using x3 unfolding l .
  from a x1 b c x2 x4 show ?thesis by blast
qed

text \<open>
  C7 (amended).  A modifier transition arriving less than 50 ms after the last accepted
  transition is ignored: stored state and debounce timestamp are unchanged and the stored
  (previous) state is returned.  In particular, of two transitions less than 50 ms apart of
  which the first was accepted, the second is ignored and returns the state the first one set,
  whatever state it requested itself.
\<close>

theorem debounce_returns_stored_state:
  "(timespec_diff_ns now (last_menu_event w) < MIN_MENU_DEBOUNCE_NS \<longrightarrow>
      handle_menu_event now pressed w = (menu_long_pressed w, emit ClockGettime w)
    \<and> menu_long_pressed (snd (handle_menu_event now pressed w)) = menu_long_pressed w
    \<and> last_menu_event (snd (handle_menu_event now pressed w)) = last_menu_event w)
   \<and> (\<not> timespec_diff_ns t1 (last_menu_event w) < MIN_MENU_DEBOUNCE_NS
        \<and> timespec_diff_ns t2 t1 < MIN_MENU_DEBOUNCE_NS \<longrightarrow>
       (let w1 = snd (handle_menu_event t1 p1 w)
        in handle_menu_event t2 p2 w1 = (p1, emit ClockGettime w1)
         \<and> menu_long_pressed (snd (handle_menu_event t2 p2 w1)) = p1
         \<and> last_menu_event (snd (handle_menu_event t2 p2 w1)) = t1))"
  by (simp add: menu_ignored menu_accepted emit_def)

theorem debounce_returns_stored_state_witness:
  "timespec_diff_ns \<lparr>tv_sec = 0, tv_nsec = 49999999\<rparr>
       (last_menu_event (initial_world None True None True)) < MIN_MENU_DEBOUNCE_NS
   \<and> handle_menu_event \<lparr>tv_sec = 0, tv_nsec = 49999999\<rparr> 1 (initial_world None True None True) =
       (0, emit ClockGettime (initial_world None True None True))
   \<and> \<not> timespec_diff_ns \<lparr>tv_sec = 1, tv_nsec = 0\<rparr>
       (last_menu_event (initial_world None True None True)) < MIN_MENU_DEBOUNCE_NS
   \<and> timespec_diff_ns \<lparr>tv_sec = 1, tv_nsec = 10000000\<rparr> \<lparr>tv_sec = 1, tv_nsec = 0\<rparr>
       < MIN_MENU_DEBOUNCE_NS
   \<and> fst (handle_menu_event \<lparr>tv_sec = 1, tv_nsec = 10000000\<rparr> 0
        (snd (handle_menu_event \<lparr>tv_sec = 1, tv_nsec = 0\<rparr> 1
               (initial_world None True None True)))) = 1"
proof -
  have a: "timespec_diff_ns \<lparr>tv_sec = 0, tv_nsec = 49999999\<rparr>
       (last_menu_event (initial_world None True None True)) < MIN_MENU_DEBOUNCE_NS"
    by (simp add: initial_world_def timespec_diff_ns_def MIN_MENU_DEBOUNCE_NS_def)
  have m: "menu_long_pressed (initial_world None True None True) = 0"
    by (simp add: initial_world_def)
  have b: "\<not> timespec_diff_ns \<lparr>tv_sec = 1, tv_nsec = 0\<rparr>
       (last_menu_event (initial_world None True None True)) < MIN_MENU_DEBOUNCE_NS"
    by (simp add: initial_world_def timespec_diff_ns_def MIN_MENU_DEBOUNCE_NS_def)
  have c: "timespec_diff_ns \<lparr>tv_sec = 1, tv_nsec = 10000000\<rparr> \<lparr>tv_sec = 1, tv_nsec = 0\<rparr>
       < MIN_MENU_DEBOUNCE_NS"
    by (simp add: timespec_diff_ns_def MIN_MENU_DEBOUNCE_NS_def)
  show ?thesis
    using debounce_returns_stored_state[of "\<lparr>tv_sec = 0, tv_nsec = 49999999\<rparr>"
        "initial_world None True None True" 1
        "\<lparr>tv_sec = 1, tv_nsec = 0\<rparr>" "\<lparr>tv_sec = 1, tv_nsec = 10000000\<rparr>" 1 0] a b c m
    by (simp add: Let_def)
qed

text \<open>
  The claim as stated fails for a press accepted at 1 s and a release 10 ms later, starting
  from the released state: the second call returns 1, the state the first call set, while
  the state from before the first of the pair is 0 (which is also the state the second call
  requested).
\<close>

theorem debounce_second_of_pair_counterexample:
  "timespec_diff_ns \<lparr>tv_sec = 1, tv_nsec = 10000000\<rparr> \<lparr>tv_sec = 1, tv_nsec = 0\<rparr>
       < MIN_MENU_DEBOUNCE_NS
   \<and> menu_long_pressed (initial_world None True None True) = 0
   \<and> fst (handle_menu_event \<lparr>tv_sec = 1, tv_nsec = 0\<rparr> 1
            (initial_world None True None True)) = 1
   \<and> fst (handle_menu_event \<lparr>tv_sec = 1, tv_nsec = 10000000\<rparr> 0
            (snd (handle_menu_event \<lparr>tv_sec = 1, tv_nsec = 0\<rparr> 1
                   (initial_world None True None True)))) = 1"
  by (simp add: handle_menu_event_def Let_def emit_def initial_world_def timespec_diff_ns_def
        MIN_MENU_DEBOUNCE_NS_def)

text \<open>
  C8.  The requested level is clamped to \<open>[0, 7]\<close> whatever integer it is, and an apply that
  passes the gate stores exactly the clamped level; the probe's result, exact or closest match,
  is an index in \<open>[0, 7]\<close>; hence the stored level stays in \<open>[0, 7]\<close> under any sequence of
  applies and probes, from any state in range and in particular from the initial state.
\<close>

theorem brightness_level_stays_in_range:
  "0 \<le> clamp_level L \<and> clamp_level L \<le> 7
   \<and> (\<not> timespec_diff_ns now (last_brightness_change w) < MIN_BRIGHTNESS_INTERVAL_NS \<longrightarrow>
        brightness_level (snd (set_brightness_ioctl now dev L w)) = clamp_level L)
   \<and> (fst (get_brightness_ioctl d w) = Some i \<longrightarrow> 0 \<le> i \<and> i \<le> 7)
   \<and> (level_in_range w \<longrightarrow> level_in_range (run_brightness_ops ops w))
   \<and> level_in_range (run_brightness_ops ops (initial_world lp lpw vf vfw))"
proof -
  have init: "level_in_range (initial_world lp lpw vf vfw)"
    by (simp add: level_in_range_def initial_world_def)
  show ?thesis
    using clamp_level_range[of L] get_brightness_range[of d w i] run_ops_range[of w ops]
      run_ops_range[OF init, of ops]
    by (simp add: sb_gate_open)
qed

theorem brightness_level_stays_in_range_witness:
  "\<not> timespec_diff_ns \<lparr>tv_sec = 1, tv_nsec = 0\<rparr>
       (last_brightness_change (initial_world None True None True)) < MIN_BRIGHTNESS_INTERVAL_NS
   \<and> brightness_level (snd (set_brightness_ioctl \<lparr>tv_sec = 1, tv_nsec = 0\<rparr> always_ok (-4)
          (initial_world None True None True))) = 0
   \<and> fst (get_brightness_ioctl demo_probe (initial_world None True None True)) = Some 5
   \<and> level_in_range (initial_world None True None True)
   \<and> level_in_range
       (run_brightness_ops
          [StartupProbe demo_probe, ApplyLevel \<lparr>tv_sec = 1, tv_nsec = 0\<rparr> always_ok 12,
           ApplyLevel \<lparr>tv_sec = 2, tv_nsec = 0\<rparr> busy_twice (-4)]
          (initial_world None True None True))"
proof -
  have g: "\<not> timespec_diff_ns \<lparr>tv_sec = 1, tv_nsec = 0\<rparr>
       (last_brightness_change (initial_world None True None True)) < MIN_BRIGHTNESS_INTERVAL_NS"
    by (simp add: initial_world_def timespec_diff_ns_def MIN_BRIGHTNESS_INTERVAL_NS_def)
  have p: "fst (get_brightness_ioctl demo_probe (initial_world None True None True)) = Some 5"
    by (simp add: get_brightness_ioctl_def demo_probe_def initial_world_def Let_def emit_def
          plausible_def brightness_found_def brightness_values_def find_closest_def
          closest_step_def)
  have l: "level_in_range (initial_world None True None True)"
    by (simp add: level_in_range_def initial_world_def)
  have c: "clamp_level (-4) = 0" by (simp add: clamp_level_def)
  show ?thesis
    using brightness_level_stays_in_range[of "-4" "\<lparr>tv_sec = 1, tv_nsec = 0\<rparr>"
        "initial_world None True None True" always_ok demo_probe 5
        "[StartupProbe demo_probe, ApplyLevel \<lparr>tv_sec = 1, tv_nsec = 0\<rparr> always_ok 12,
           ApplyLevel \<lparr>tv_sec = 2, tv_nsec = 0\<rparr> busy_twice (-4)]"] g p l
    by (simp add: c)
qed









end
